theory Spec2Isabelle
  imports Main
begin

text \<open>
  A model of the QIWI wallet client \<^verbatim>\<open>lib/index.js\<close>: the constructor \<^verbatim>\<open>Qiwi\<close>, its
  public methods, the nested helpers \<^verbatim>\<open>detectOperator\<close> and
  \<^verbatim>\<open>processRequestCallback\<close>, and the HTTP module and the clock as parameters. A call of
  a method is the list of its effects in order: requests issued, callback invocations,
  and an exception when one leaves the library. The constant tables of the client
  (\<^verbatim>\<open>recipients\<close>, \<^verbatim>\<open>txnType\<close>, \<^verbatim>\<open>receiptFormat\<close>) are read by no method and are left
  out.
\<close>

section \<open>JavaScript values\<close>

text \<open>
  The library handles untyped JSON-shaped data, so values are modelled by one datatype.
  \<open>JNum n\<close> is the number of the language nearest to the integer \<open>n\<close> (the integer
  itself up to \<open>2 ^ 53\<close>); numbers with a fractional part are not modelled,
  \<open>JObj\<close> is an object as the list of its own properties (the first binding of a key
  is the one read), and \<open>JErr m\<close> is the result of \<^verbatim>\<open>new Error(m)\<close>.
\<close>

datatype jsval =
    JUndefined
  | JNull
  | JBool bool
  | JNum int
  | JStr string
  | JArr "jsval list"
  | JObj "(string \<times> jsval) list"
  | JErr string

text \<open>What a JavaScript \<^verbatim>\<open>throw\<close> carries: the engine's own \<^verbatim>\<open>TypeError\<close>
  (reading a property of \<^verbatim>\<open>null\<close> or \<^verbatim>\<open>undefined\<close>) or a value raised by the code.\<close>

datatype thrown = TypeError | Raised jsval

text \<open>\<^verbatim>\<open>v == null\<close> (and \<^verbatim>\<open>v == undefined\<close>): true of \<^verbatim>\<open>null\<close> and \<^verbatim>\<open>undefined\<close> only.\<close>

fun nullish :: "jsval \<Rightarrow> bool" where
  "nullish JUndefined = True"
| "nullish JNull = True"
| "nullish _ = False"

text \<open>The truth value of \<^verbatim>\<open>v\<close> in a condition (\<^verbatim>\<open>if (v)\<close>, \<^verbatim>\<open>v || ...\<close>).\<close>

fun truthy :: "jsval \<Rightarrow> bool" where
  "truthy JUndefined = False"
| "truthy JNull = False"
| "truthy (JBool b) = b"
| "truthy (JNum n) = (n \<noteq> 0)"
| "truthy (JStr s) = (s \<noteq> [])"
| "truthy _ = True"

text \<open>
  \<^verbatim>\<open>v.k\<close>: a \<^verbatim>\<open>TypeError\<close> on \<^verbatim>\<open>null\<close> and \<^verbatim>\<open>undefined\<close>, the own property of an
  object, the message of an error, and \<^verbatim>\<open>undefined\<close> for a property that is not there.
  Inherited properties (\<^verbatim>\<open>length\<close>, array indices, methods) are left out: the library
  reads none of them.
\<close>

fun get_prop :: "jsval \<Rightarrow> string \<Rightarrow> thrown + jsval" where
  "get_prop JUndefined k = Inl TypeError"
| "get_prop JNull k = Inl TypeError"
| "get_prop (JObj kvs) k = Inr (case map_of kvs k of Some v \<Rightarrow> v | None \<Rightarrow> JUndefined)"
| "get_prop (JErr m) k = Inr (if k = ''message'' then JStr m else JUndefined)"
| "get_prop _ k = Inr JUndefined"

text \<open>The decimal digits of a natural number.\<close>

function dec_of_nat :: "nat \<Rightarrow> string" where
  "dec_of_nat n =
     (if n < 10 then [''0123456789'' ! n]
      else dec_of_nat (n div 10) @ [''0123456789'' ! (n mod 10)])"
  by pat_completeness auto
termination
  by (relation "measure id") auto

declare dec_of_nat.simps [simp del]

text \<open>
  A number at or beyond \<open>2 ^ 53\<close> is a binary floating-point value of 53 significant
  bits: \<open>round_to_double\<close> is the nearest such value, ties to the even one.
\<close>

function bit_length :: "nat \<Rightarrow> nat" where
  "bit_length n = (if n = 0 then 0 else Suc (bit_length (n div 2)))"
  by pat_completeness auto
termination
  by (relation "measure id") auto

declare bit_length.simps [simp del]

definition round_to_double :: "nat \<Rightarrow> nat" where
  "round_to_double m =
     (if m < 2 ^ 53 then m
      else let e = bit_length m - 53; q = m div 2 ^ e; r = m mod 2 ^ e; h = 2 ^ (e - 1)
           in if h < r \<or> (r = h \<and> odd q) then (q + 1) * 2 ^ e else q * 2 ^ e)"

function strip_zeros :: "nat \<Rightarrow> nat" where
  "strip_zeros n = (if n = 0 \<or> n mod 10 \<noteq> 0 then n else strip_zeros (n div 10))"
  by pat_completeness auto
termination
  by (relation "measure id") auto

declare strip_zeros.simps [simp del]

text \<open>
  \<^verbatim>\<open>Number.prototype.toString\<close> prints the decimal with the fewest significant digits
  that still reads back as the same number: \<open>shortest_decimal x nd ks\<close> tries the digit
  counts \<open>ks\<close> in turn on a number \<open>x\<close> of \<open>nd\<close> digits, taking the multiples of the unit
  just below and just above \<open>x\<close>, and of two that fit the closer one.
\<close>

fun shortest_decimal :: "nat \<Rightarrow> nat \<Rightarrow> nat list \<Rightarrow> nat" where
  "shortest_decimal x nd [] = x"
| "shortest_decimal x nd (k # ks) =
     (let u = 10 ^ (nd - k); lo = (x div u) * u; hi = lo + u
      in if round_to_double lo = x \<and> round_to_double hi = x then
           (if x - lo < hi - x then lo
            else if hi - x < x - lo then hi
            else if even (lo div u) then lo else hi)
         else if round_to_double lo = x then lo
         else if round_to_double hi = x then hi
         else shortest_decimal x nd ks)"

text \<open>Up to 21 digits are printed in full, longer numbers in exponent notation.\<close>

definition double_to_string :: "nat \<Rightarrow> string" where
  "double_to_string x =
     (let v = shortest_decimal x (length (dec_of_nat x)) [1..<18];
          n = length (dec_of_nat v)
      in if n \<le> 21 then dec_of_nat v
         else let s = dec_of_nat (strip_zeros v)
              in (if length s = 1 then s else hd s # CHR ''.'' # tl s) @ ''e+'' @ dec_of_nat (n - 1))"

text \<open>
  The string of a natural number as JavaScript prints it: its digits below \<open>2 ^ 53\<close>,
  where every natural number is a number of the language; beyond, the string of the
  nearest floating-point value, \<^verbatim>\<open>Infinity\<close> past the largest one.
\<close>

definition nat_to_string :: "nat \<Rightarrow> string" where
  "nat_to_string m =
     (if m < 2 ^ 53 then dec_of_nat m
      else if 2 ^ 1024 \<le> round_to_double m then ''Infinity''
      else double_to_string (round_to_double m))"

definition number_to_string :: "int \<Rightarrow> string" where
  "number_to_string i =
     (if i < 0 then CHR ''-'' # nat_to_string (nat (- i)) else nat_to_string (nat i))"

text \<open>\<^verbatim>\<open>Array.prototype.join(",")\<close> on strings already converted.\<close>

fun join_comma :: "string list \<Rightarrow> string" where
  "join_comma [] = []"
| "join_comma [s] = s"
| "join_comma (s # t # ss) = s @ CHR '','' # join_comma (t # ss)"

text \<open>
  The string conversion of template literals and of \<^verbatim>\<open>'7' + v\<close>. An array joins its
  elements with commas, printing \<^verbatim>\<open>null\<close> and \<^verbatim>\<open>undefined\<close> elements as nothing.
\<close>

fun to_string :: "jsval \<Rightarrow> string" where
  "to_string JUndefined = ''undefined''"
| "to_string JNull = ''null''"
| "to_string (JBool b) = (if b then ''true'' else ''false'')"
| "to_string (JNum n) = number_to_string n"
| "to_string (JStr s) = s"
| "to_string (JArr xs) = join_comma (map (\<lambda>v. if nullish v then [] else to_string v) xs)"
| "to_string (JObj kvs) = ''[object Object]''"
| "to_string (JErr m) = (if m = [] then ''Error'' else ''Error: '' @ m)"

text \<open>
  \<^verbatim>\<open>v == "2"\<close>, the loose comparison the detection results go through: a string is
  compared as it is, a number with the number 2, a boolean (0 or 1) never matches, and an
  object, array or error is converted to a string first.
\<close>

fun loose_equals_2 :: "jsval \<Rightarrow> bool" where
  "loose_equals_2 JUndefined = False"
| "loose_equals_2 JNull = False"
| "loose_equals_2 (JBool b) = False"
| "loose_equals_2 (JNum n) = (n = 2)"
| "loose_equals_2 (JStr s) = (s = ''2'')"
| "loose_equals_2 v = (to_string v = ''2'')"

section \<open>Effects: requests, callbacks, exceptions\<close>

datatype http_method = GET | POST | PUT | DELETE

text \<open>
  What one call of an operation does, in order: the HTTP requests handed to the
  \<^verbatim>\<open>request\<close> module (verb and options object), the invocations of the caller's
  completion callback with its two arguments, and an exception leaving the library.
\<close>

datatype event =
    Request http_method jsval
  | Callback jsval jsval
  | Throw thrown

text \<open>The external HTTP module: for each request, the \<^verbatim>\<open>(error, response)\<close> pair it
  hands to the handler. It is assumed to call the handler once.\<close>

type_synonym transport = "http_method \<Rightarrow> jsval \<Rightarrow> jsval \<times> jsval"

type_synonym handler = "jsval \<Rightarrow> jsval \<Rightarrow> event list"

text \<open>Evaluating an expression that may throw, then going on with its value.\<close>

definition js_try :: "thrown + 'a \<Rightarrow> ('a \<Rightarrow> event list) \<Rightarrow> event list" where
  "js_try r k = (case r of Inl exn \<Rightarrow> [Throw exn] | Inr v \<Rightarrow> k v)"

text \<open>\<^verbatim>\<open>request.get(options, handler)\<close> and its siblings for the other verbs.\<close>

definition request_call :: "transport \<Rightarrow> http_method \<Rightarrow> jsval \<Rightarrow> handler \<Rightarrow> event list" where
  "request_call net verb options h =
     Request verb options # (case net verb options of (error, response) \<Rightarrow> h error response)"

text \<open>The caller's completion callback, recorded as an event.\<close>

definition report :: handler where
  "report err data = [Callback err data]"

section \<open>The client\<close>

record qiwi =
  token :: string
  headers :: jsval
  apiUri :: string

definition Qiwi :: "string \<Rightarrow> qiwi" where
  "Qiwi tok = \<lparr> token = tok,
     headers = JObj [(''Accept'', JStr ''application/json''),
                     (''content-type'', JStr ''application/json''),
                     (''Authorization'', JStr (''Bearer '' @ tok))],
     apiUri = ''https://edge.qiwi.com'' \<rparr>"

subsection \<open>Response normalization\<close>

definition processRequestCallback :: "jsval \<Rightarrow> jsval \<Rightarrow> handler \<Rightarrow> event list" where
  "processRequestCallback error body callback =
     (if \<not> nullish error then callback error JNull
      else js_try (get_prop body ''errorCode'') (\<lambda>errorCode.
        if \<not> nullish errorCode then callback body JNull
        else callback JNull body))"

text \<open>The handler every operation gives to the HTTP module:
  \<^verbatim>\<open>(error, response) => { processRequestCallback(error, response.body, callback); }\<close>.\<close>

definition on_response :: "handler \<Rightarrow> handler" where
  "on_response callback error response =
     js_try (get_prop response ''body'') (\<lambda>body. processRequestCallback error body callback)"

subsection \<open>Simple operations\<close>

text \<open>
  Each operation takes the client \<open>self\<close> (the \<^verbatim>\<open>this\<close> of the method), the transport,
  its own arguments and the completion callback, and yields the events of the call.
  Arguments are untyped, as in the source; a template literal converts them with
  \<open>to_string\<close>.
\<close>

definition getIdentificationData :: "qiwi \<Rightarrow> transport \<Rightarrow> jsval \<Rightarrow> handler \<Rightarrow> event list" where
  "getIdentificationData self net wallet callback =
     (let options = JObj [
        (''url'', JStr (apiUri self @ ''/identification/v1/persons/'' @ to_string wallet @ ''/identification'')),
        (''headers'', headers self),
        (''json'', JBool True)]
      in request_call net GET options (on_response callback))"

definition identifyWallet :: "qiwi \<Rightarrow> transport \<Rightarrow> jsval \<Rightarrow> jsval \<Rightarrow> handler \<Rightarrow> event list" where
  "identifyWallet self net wallet requestOptions callback =
     (let options = JObj [
        (''url'', JStr (apiUri self @ ''/identification/v1/persons/'' @ to_string wallet @ ''/identification'')),
        (''headers'', headers self),
        (''body'', requestOptions),
        (''json'', JBool True)]
      in request_call net POST options (on_response callback))"

definition getAccountInfo :: "qiwi \<Rightarrow> transport \<Rightarrow> handler \<Rightarrow> event list" where
  "getAccountInfo self net callback =
     (let options = JObj [
        (''url'', JStr (apiUri self @ ''/person-profile/v1/profile/current'')),
        (''headers'', headers self),
        (''json'', JBool True)]
      in request_call net GET options (on_response callback))"

definition getBalance :: "qiwi \<Rightarrow> transport \<Rightarrow> handler \<Rightarrow> event list" where
  "getBalance self net callback =
     (let options = JObj [
        (''url'', JStr (apiUri self @ ''/funding-sources/v1/accounts/current'')),
        (''headers'', headers self),
        (''json'', JBool True)]
      in request_call net GET options (on_response callback))"

definition getTransactionInfo :: "qiwi \<Rightarrow> transport \<Rightarrow> jsval \<Rightarrow> handler \<Rightarrow> event list" where
  "getTransactionInfo self net transactionId callback =
     (let options = JObj [
        (''url'', JStr (apiUri self @ ''/payment-history/v2/transactions/'' @ to_string transactionId)),
        (''headers'', headers self),
        (''json'', JBool True)]
      in request_call net GET options (on_response callback))"

definition getReceipt :: "qiwi \<Rightarrow> transport \<Rightarrow> jsval \<Rightarrow> jsval \<Rightarrow> handler \<Rightarrow> event list" where
  "getReceipt self net transactionId requestOptions callback =
     (let options = JObj [
        (''url'', JStr (apiUri self @ ''/payment-history/v1/transactions/'' @ to_string transactionId
                        @ ''/cheque/file'')),
        (''headers'', headers self),
        (''qs'', requestOptions),
        (''json'', JBool True)]
      in request_call net GET options (on_response callback))"

text \<open>The two commission operations build their options without a \<^verbatim>\<open>headers\<close> entry.\<close>

definition checkCommission :: "qiwi \<Rightarrow> transport \<Rightarrow> jsval \<Rightarrow> handler \<Rightarrow> event list" where
  "checkCommission self net recipient callback =
     (let options = JObj [
        (''url'', JStr (apiUri self @ ''/sinap/providers/'' @ to_string recipient @ ''/form'')),
        (''json'', JBool True)]
      in request_call net GET options (on_response callback))"

definition checkOnlineCommission :: "qiwi \<Rightarrow> transport \<Rightarrow> jsval \<Rightarrow> jsval \<Rightarrow> handler \<Rightarrow> event list" where
  "checkOnlineCommission self net recipient requestOptions callback =
     js_try (get_prop requestOptions ''account'') (\<lambda>account.
     js_try (get_prop requestOptions ''amount'') (\<lambda>amount.
       let options = JObj [
         (''url'', JStr (apiUri self @ ''/sinap/providers/'' @ to_string recipient @ ''/onlineCommission'')),
         (''body'', JObj [
            (''account'', account),
            (''paymentMethod'', JObj [(''type'', JStr ''Account''), (''accountId'', JStr ''643'')]),
            (''purchaseTotals'', JObj [
               (''total'', JObj [(''amount'', amount), (''currency'', JStr ''643'')])])]),
         (''json'', JBool True)]
       in request_call net POST options (on_response callback)))"

text \<open>
  \<^verbatim>\<open>detectOperator\<close> is a plain nested function, called without a receiver: its
  \<^verbatim>\<open>this\<close> is the global object of the module, which has no \<^verbatim>\<open>headers\<close>
  property, so \<^verbatim>\<open>this.headers\<close> is \<^verbatim>\<open>undefined\<close> there.
\<close>

definition detectOperator :: "transport \<Rightarrow> jsval \<Rightarrow> handler \<Rightarrow> event list" where
  "detectOperator net phone callback =
     (let options = JObj [
        (''url'', JStr ''https://qiwi.com/mobile/detect.action''),
        (''headers'', JUndefined),
        (''qs'', JObj [(''phone'', phone)]),
        (''json'', JBool True)]
      in request_call net POST options (on_response callback))"

definition detectCard :: "qiwi \<Rightarrow> transport \<Rightarrow> jsval \<Rightarrow> handler \<Rightarrow> event list" where
  "detectCard self net cardNumber callback =
     (let options = JObj [
        (''url'', JStr ''https://qiwi.com/card/detect.action''),
        (''headers'', headers self),
        (''qs'', JObj [(''cardNumber'', cardNumber)]),
        (''json'', JBool True)]
      in request_call net POST options (on_response callback))"

definition getCrossRates :: "qiwi \<Rightarrow> transport \<Rightarrow> handler \<Rightarrow> event list" where
  "getCrossRates self net callback =
     (let options = JObj [
        (''url'', JStr (apiUri self @ ''/sinap/crossRates'')),
        (''headers'', headers self),
        (''json'', JBool True)]
      in request_call net GET options (on_response callback))"

definition addWebHook :: "qiwi \<Rightarrow> transport \<Rightarrow> jsval \<Rightarrow> jsval \<Rightarrow> handler \<Rightarrow> event list" where
  "addWebHook self net url txnType callback =
     (let options = JObj [
        (''url'', JStr (apiUri self @ ''/payment-notifier/v1/hooks'')),
        (''headers'', headers self),
        (''qs'', JObj [(''hookType'', JNum 1), (''param'', url), (''txnType'', txnType)]),
        (''json'', JBool True)]
      in request_call net PUT options (on_response callback))"

definition removeWebHook :: "qiwi \<Rightarrow> transport \<Rightarrow> jsval \<Rightarrow> handler \<Rightarrow> event list" where
  "removeWebHook self net hookId callback =
     (let options = JObj [
        (''url'', JStr (apiUri self @ ''/payment-notifier/v1/hooks/'' @ to_string hookId)),
        (''headers'', headers self),
        (''json'', JBool True)]
      in request_call net DELETE options (on_response callback))"

definition getWebHookSecret :: "qiwi \<Rightarrow> transport \<Rightarrow> jsval \<Rightarrow> handler \<Rightarrow> event list" where
  "getWebHookSecret self net hookId callback =
     (let options = JObj [
        (''url'', JStr (apiUri self @ ''/payment-notifier/v1/hooks/'' @ to_string hookId @ ''/key'')),
        (''headers'', headers self),
        (''json'', JBool True)]
      in request_call net GET options (on_response callback))"

definition requestNewWebHookSecret :: "qiwi \<Rightarrow> transport \<Rightarrow> jsval \<Rightarrow> handler \<Rightarrow> event list" where
  "requestNewWebHookSecret self net hookId callback =
     (let options = JObj [
        (''url'', JStr (apiUri self @ ''/payment-notifier/v1/hooks/'' @ to_string hookId @ ''/newkey'')),
        (''headers'', headers self),
        (''json'', JBool True)]
      in request_call net POST options (on_response callback))"

definition getActiveWebHook :: "qiwi \<Rightarrow> transport \<Rightarrow> handler \<Rightarrow> event list" where
  "getActiveWebHook self net callback =
     (let options = JObj [
        (''url'', JStr (apiUri self @ ''/payment-notifier/v1/hooks/active'')),
        (''headers'', headers self),
        (''json'', JBool True)]
      in request_call net GET options (on_response callback))"

definition testActiveWebHook :: "qiwi \<Rightarrow> transport \<Rightarrow> handler \<Rightarrow> event list" where
  "testActiveWebHook self net callback =
     (let options = JObj [
        (''url'', JStr (apiUri self @ ''/payment-notifier/v1/hooks/test'')),
        (''headers'', headers self),
        (''json'', JBool True)]
      in request_call net GET options (on_response callback))"

subsection \<open>Two-step operations\<close>

definition getOperationHistory :: "qiwi \<Rightarrow> transport \<Rightarrow> jsval \<Rightarrow> handler \<Rightarrow> event list" where
  "getOperationHistory self net requestOptions callback =
     getAccountInfo self net (\<lambda>err data.
       if \<not> nullish err then callback err JNull
       else if nullish data then callback (JErr ''Can not retrieve account info'') JNull
       else
         js_try (get_prop data ''authInfo'') (\<lambda>authInfo.
         js_try (get_prop authInfo ''personId'') (\<lambda>personId.
           let options = JObj [
             (''url'', JStr (apiUri self @ ''/payment-history/v2/persons/'' @ to_string personId
                             @ ''/payments'')),
             (''headers'', headers self),
             (''qs'', requestOptions),
             (''json'', JBool True)]
           in request_call net GET options (on_response callback))))"

definition getOperationStatistics :: "qiwi \<Rightarrow> transport \<Rightarrow> jsval \<Rightarrow> handler \<Rightarrow> event list" where
  "getOperationStatistics self net requestOptions callback =
     getAccountInfo self net (\<lambda>err data.
       if \<not> nullish err then callback err JNull
       else if nullish data then callback (JErr ''Can not retrieve account info'') JNull
       else
         js_try (get_prop data ''authInfo'') (\<lambda>authInfo.
         js_try (get_prop authInfo ''personId'') (\<lambda>personId.
           let options = JObj [
             (''url'', JStr (apiUri self @ ''/payment-history/v2/persons/'' @ to_string personId
                             @ ''/payments/total'')),
             (''headers'', headers self),
             (''qs'', requestOptions),
             (''json'', JBool True)]
           in request_call net GET options (on_response callback))))"

subsection \<open>Payments\<close>

text \<open>
  \<open>now\<close> is what \<^verbatim>\<open>Date.now()\<close> returns during the call: the milliseconds since the
  epoch, a natural number. \<^verbatim>\<open>(1000 * Date.now()).toString()\<close> is the string of the
  product, its decimal digits while the product stays below \<open>2 ^ 53\<close> (for every date
  until the year 2255).
\<close>

definition toWallet :: "qiwi \<Rightarrow> transport \<Rightarrow> nat \<Rightarrow> jsval \<Rightarrow> handler \<Rightarrow> event list" where
  "toWallet self net now requestOptions callback =
     js_try (get_prop requestOptions ''amount'') (\<lambda>amount.
     js_try (get_prop requestOptions ''comment'') (\<lambda>comment.
     js_try (get_prop requestOptions ''account'') (\<lambda>account.
       let options = JObj [
         (''url'', JStr (apiUri self @ ''/sinap/terms/99/payments'')),
         (''headers'', headers self),
         (''body'', JObj [
            (''id'', JStr (nat_to_string (1000 * now))),
            (''sum'', JObj [(''amount'', amount), (''currency'', JStr ''643'')]),
            (''source'', JStr ''account_643''),
            (''paymentMethod'', JObj [(''type'', JStr ''Account''), (''accountId'', JStr ''643'')]),
            (''comment'', comment),
            (''fields'', JObj [(''account'', account)])]),
         (''json'', JBool True)]
       in request_call net POST options (on_response callback))))"

definition cant_detect_operator :: string where
  "cant_detect_operator = ''Can'' @ [CHR 0x27] @ ''t detect operator.''"

definition toMobilePhone :: "qiwi \<Rightarrow> transport \<Rightarrow> nat \<Rightarrow> jsval \<Rightarrow> handler \<Rightarrow> event list" where
  "toMobilePhone self net now requestOptions callback =
     js_try (get_prop requestOptions ''account'') (\<lambda>number.
     detectOperator net (JStr (''7'' @ to_string number)) (\<lambda>err data.
       if truthy err then [Throw (Raised (JErr cant_detect_operator))]
       else
         js_try (get_prop data ''code'') (\<lambda>code.
         js_try (get_prop code ''value'') (\<lambda>status.
           if loose_equals_2 status then [Throw (Raised (JErr cant_detect_operator))]
           else
             js_try (get_prop data ''message'') (\<lambda>message.
             js_try (get_prop requestOptions ''amount'') (\<lambda>amount.
             js_try (get_prop requestOptions ''comment'') (\<lambda>comment.
             js_try (get_prop requestOptions ''account'') (\<lambda>account.
               let options = JObj [
                 (''url'', JStr (apiUri self @ ''/sinap/terms/'' @ to_string message @ ''/payments'')),
                 (''headers'', headers self),
                 (''body'', JObj [
                    (''id'', JStr (nat_to_string (1000 * now))),
                    (''sum'', JObj [(''amount'', amount), (''currency'', JStr ''643'')]),
                    (''source'', JStr ''account_643''),
                    (''paymentMethod'', JObj [(''type'', JStr ''Account''), (''accountId'', JStr ''643'')]),
                    (''comment'', comment),
                    (''fields'', JObj [(''account'', account)])]),
                 (''json'', JBool True)]
               in request_call net POST options (on_response callback)))))))))"

text \<open>
  On a failed detection \<^verbatim>\<open>toCard\<close> runs
  \<^verbatim>\<open>callback(new Error('Wrong card number!', null))\<close>: the \<^verbatim>\<open>null\<close> is the second
  argument of the \<^verbatim>\<open>Error\<close> constructor, and the callback gets one argument, so its
  second parameter is \<^verbatim>\<open>undefined\<close>.
\<close>

definition toCard :: "qiwi \<Rightarrow> transport \<Rightarrow> nat \<Rightarrow> jsval \<Rightarrow> handler \<Rightarrow> event list" where
  "toCard self net now requestOptions callback =
     js_try (get_prop requestOptions ''account'') (\<lambda>cardNumber.
     detectCard self net cardNumber (\<lambda>err data.
       if truthy err then callback (JErr ''Wrong card number!'') JUndefined
       else
         js_try (get_prop data ''code'') (\<lambda>code.
         js_try (get_prop code ''value'') (\<lambda>status.
           if loose_equals_2 status then callback (JErr ''Wrong card number!'') JUndefined
           else
             js_try (get_prop data ''message'') (\<lambda>message.
             js_try (get_prop requestOptions ''amount'') (\<lambda>amount.
             js_try (get_prop requestOptions ''comment'') (\<lambda>comment.
             js_try (get_prop requestOptions ''account'') (\<lambda>account.
               let options = JObj [
                 (''url'', JStr (apiUri self @ ''/sinap/terms/'' @ to_string message @ ''/payments'')),
                 (''headers'', headers self),
                 (''body'', JObj [
                    (''id'', JStr (nat_to_string (1000 * now))),
                    (''sum'', JObj [(''amount'', amount), (''currency'', JStr ''643'')]),
                    (''source'', JStr ''account_643''),
                    (''paymentMethod'', JObj [(''type'', JStr ''Account''), (''accountId'', JStr ''643'')]),
                    (''comment'', comment),
                    (''fields'', JObj [(''account'', account)])]),
                 (''json'', JBool True)]
               in request_call net POST options (on_response callback)))))))))"

definition toBank :: "qiwi \<Rightarrow> transport \<Rightarrow> nat \<Rightarrow> jsval \<Rightarrow> jsval \<Rightarrow> handler \<Rightarrow> event list" where
  "toBank self net now requestOptions recipient callback =
     js_try (get_prop requestOptions ''amount'') (\<lambda>amount.
     js_try (get_prop requestOptions ''comment'') (\<lambda>comment.
     js_try (get_prop requestOptions ''account'') (\<lambda>account.
     js_try (get_prop requestOptions ''account_type'') (\<lambda>account_type.
     js_try (get_prop requestOptions ''exp_date'') (\<lambda>exp_date.
       let options = JObj [
         (''url'', JStr (apiUri self @ ''/sinap/terms/'' @ to_string recipient @ ''/payments'')),
         (''headers'', headers self),
         (''body'', JObj [
            (''id'', JStr (nat_to_string (1000 * now))),
            (''sum'', JObj [(''amount'', amount), (''currency'', JStr ''643'')]),
            (''source'', JStr ''account_643''),
            (''paymentMethod'', JObj [(''type'', JStr ''Account''), (''accountId'', JStr ''643'')]),
            (''comment'', comment),
            (''fields'', JObj [
               (''account'', account),
               (''account_type'', account_type),
               (''exp_date'', exp_date)])]),
         (''json'', JBool True)]
       in request_call net POST options (on_response callback))))))"

subsection \<open>The public surface\<close>

text \<open>One constructor for each public method of the client, with the method's arguments.\<close>

datatype operation =
    GetIdentificationData jsval
  | IdentifyWallet jsval jsval
  | GetAccountInfo
  | GetBalance
  | GetOperationHistory jsval
  | GetOperationStatistics jsval
  | GetTransactionInfo jsval
  | GetReceipt jsval jsval
  | ToWallet jsval
  | ToMobilePhone jsval
  | ToCard jsval
  | ToBank jsval jsval
  | CheckCommission jsval
  | CheckOnlineCommission jsval jsval
  | DetectCard jsval
  | GetCrossRates
  | AddWebHook jsval jsval
  | RemoveWebHook jsval
  | GetWebHookSecret jsval
  | RequestNewWebHookSecret jsval
  | GetActiveWebHook
  | TestActiveWebHook

fun invoke :: "qiwi \<Rightarrow> transport \<Rightarrow> nat \<Rightarrow> operation \<Rightarrow> handler \<Rightarrow> event list" where
  "invoke self net now (GetIdentificationData wallet) cb = getIdentificationData self net wallet cb"
| "invoke self net now (IdentifyWallet wallet ro) cb = identifyWallet self net wallet ro cb"
| "invoke self net now GetAccountInfo cb = getAccountInfo self net cb"
| "invoke self net now GetBalance cb = getBalance self net cb"
| "invoke self net now (GetOperationHistory ro) cb = getOperationHistory self net ro cb"
| "invoke self net now (GetOperationStatistics ro) cb = getOperationStatistics self net ro cb"
| "invoke self net now (GetTransactionInfo txn) cb = getTransactionInfo self net txn cb"
| "invoke self net now (GetReceipt txn ro) cb = getReceipt self net txn ro cb"
| "invoke self net now (ToWallet ro) cb = toWallet self net now ro cb"
| "invoke self net now (ToMobilePhone ro) cb = toMobilePhone self net now ro cb"
| "invoke self net now (ToCard ro) cb = toCard self net now ro cb"
| "invoke self net now (ToBank ro recipient) cb = toBank self net now ro recipient cb"
| "invoke self net now (CheckCommission recipient) cb = checkCommission self net recipient cb"
| "invoke self net now (CheckOnlineCommission recipient ro) cb =
     checkOnlineCommission self net recipient ro cb"
| "invoke self net now (DetectCard cardNumber) cb = detectCard self net cardNumber cb"
| "invoke self net now GetCrossRates cb = getCrossRates self net cb"
| "invoke self net now (AddWebHook url txnType) cb = addWebHook self net url txnType cb"
| "invoke self net now (RemoveWebHook hookId) cb = removeWebHook self net hookId cb"
| "invoke self net now (GetWebHookSecret hookId) cb = getWebHookSecret self net hookId cb"
| "invoke self net now (RequestNewWebHookSecret hookId) cb = requestNewWebHookSecret self net hookId cb"
| "invoke self net now GetActiveWebHook cb = getActiveWebHook self net cb"
| "invoke self net now TestActiveWebHook cb = testActiveWebHook self net cb"

section \<open>Observing a call\<close>

text \<open>The parts of a trace: the callback invocations, the requests, the exceptions.\<close>

fun callbacks :: "event list \<Rightarrow> (jsval \<times> jsval) list" where
  "callbacks [] = []"
| "callbacks (Callback e d # tr) = (e, d) # callbacks tr"
| "callbacks (_ # tr) = callbacks tr"

fun requests :: "event list \<Rightarrow> (http_method \<times> jsval) list" where
  "requests [] = []"
| "requests (Request verb options # tr) = (verb, options) # requests tr"
| "requests (_ # tr) = requests tr"

fun thrown_values :: "event list \<Rightarrow> thrown list" where
  "thrown_values [] = []"
| "thrown_values (Throw x # tr) = x # thrown_values tr"
| "thrown_values (_ # tr) = thrown_values tr"

text \<open>A transport that answers every request with the same \<^verbatim>\<open>(error, response)\<close>.\<close>

definition answering :: "jsval \<Rightarrow> jsval \<Rightarrow> transport" where
  "answering error response verb options = (error, response)"

text \<open>Reading a nested property, \<^verbatim>\<open>v.k1.k2...\<close>.\<close>

fun get_path :: "jsval \<Rightarrow> string list \<Rightarrow> thrown + jsval" where
  "get_path v [] = Inr v"
| "get_path v (k # ks) = (case get_prop v k of Inl exn \<Rightarrow> Inl exn | Inr w \<Rightarrow> get_path w ks)"

text \<open>The options of a request carry the bearer token of the client.\<close>

definition carries_authorization :: "string \<Rightarrow> jsval \<Rightarrow> bool" where
  "carries_authorization tok options =
     (get_path options [''headers'', ''Authorization''] = Inr (JStr (''Bearer '' @ tok)))"

text \<open>
  The requests built without the client's headers: those of \<^verbatim>\<open>checkCommission\<close> and
  \<^verbatim>\<open>checkOnlineCommission\<close>, and the operator detection request of
  \<^verbatim>\<open>toMobilePhone\<close>.
\<close>

fun without_authorization :: "operation \<Rightarrow> jsval \<Rightarrow> bool" where
  "without_authorization (CheckCommission recipient) options = True"
| "without_authorization (CheckOnlineCommission recipient ro) options = True"
| "without_authorization (ToMobilePhone ro) options =
     (get_prop options ''url'' = Inr (JStr ''https://qiwi.com/mobile/detect.action''))"
| "without_authorization _ options = False"

text \<open>
  A delivered pair has one side only: an error that is not \<^verbatim>\<open>null\<close> with no result,
  or a \<^verbatim>\<open>null\<close> error with a result.
\<close>

definition one_sided :: "jsval \<times> jsval \<Rightarrow> bool" where
  "one_sided p = (\<not> nullish (fst p) \<and> nullish (snd p) \<or> fst p = JNull \<and> \<not> nullish (snd p))"

text \<open>
  A trace is settled when it is a run of requests closed by one exception or by one
  callback invocation with a one-sided pair.
\<close>

fun settled :: "event list \<Rightarrow> bool" where
  "settled [Throw x] = True"
| "settled [Callback e d] = one_sided (e, d)"
| "settled (Request verb options # tr) = settled tr"
| "settled _ = False"

text \<open>A request carries the token exactly when it is not one of those.\<close>

definition authorization_as_built :: "string \<Rightarrow> operation \<Rightarrow> http_method \<times> jsval \<Rightarrow> bool" where
  "authorization_as_built tok op p =
     (carries_authorization tok (snd p) \<longleftrightarrow> \<not> without_authorization op (snd p))"

text \<open>A reply without a transport error and without a body (a \<^verbatim>\<open>null\<close> body, or
  an empty response, which the HTTP module leaves \<^verbatim>\<open>undefined\<close>).\<close>

definition empty_reply :: "jsval \<times> jsval \<Rightarrow> bool" where
  "empty_reply p =
     (nullish (fst p) \<and>
      (case get_prop (snd p) ''body'' of Inl exn \<Rightarrow> False | Inr body \<Rightarrow> nullish body))"

text \<open>
  A reply the handlers can read: there is a response object and, when there is no
  transport error, it has a body.
\<close>

definition sound_reply :: "jsval \<times> jsval \<Rightarrow> bool" where
  "sound_reply p =
     (\<not> nullish (snd p) \<and>
      (nullish (fst p) \<longrightarrow>
         (case get_prop (snd p) ''body'' of Inl exn \<Rightarrow> False | Inr body \<Rightarrow> \<not> nullish body)))"

text \<open>
  The detection results that \<^verbatim>\<open>toMobilePhone\<close> and \<^verbatim>\<open>toCard\<close> can test,
  \<^verbatim>\<open>err || data.code.value == "2"\<close>: an error that counts as true, or a status to read.
\<close>

fun testable :: "jsval \<times> jsval \<Rightarrow> bool" where
  "testable (err, data) = (truthy err \<or> \<not> isl (get_path data [''code'', ''value'']))"

text \<open>The outcome of that test: no provider was detected.\<close>

fun not_detected :: "jsval \<times> jsval \<Rightarrow> bool" where
  "not_detected (err, data) =
     (truthy err \<or>
      (case get_path data [''code'', ''value''] of
         Inl exn \<Rightarrow> False
       | Inr status \<Rightarrow> loose_equals_2 status))"

text \<open>An account-info result from which the two-step operations can go on.\<close>

fun identified :: "jsval \<times> jsval \<Rightarrow> bool" where
  "identified (err, data) = (\<not> nullish err \<or> \<not> isl (get_path data [''authInfo'', ''personId'']))"

text \<open>
  The property reads of a call find their objects: the request options are an object
  where the operation reads them, and the first step of an operation in two steps
  delivers what the second step reads.
\<close>

fun reads_succeed :: "qiwi \<Rightarrow> transport \<Rightarrow> operation \<Rightarrow> bool" where
  "reads_succeed self net (GetOperationHistory ro) =
     list_all identified (callbacks (getAccountInfo self net report))"
| "reads_succeed self net (GetOperationStatistics ro) =
     list_all identified (callbacks (getAccountInfo self net report))"
| "reads_succeed self net (ToWallet ro) = (\<not> nullish ro)"
| "reads_succeed self net (ToBank ro recipient) = (\<not> nullish ro)"
| "reads_succeed self net (CheckOnlineCommission recipient ro) = (\<not> nullish ro)"
| "reads_succeed self net (ToMobilePhone ro) =
     (case get_prop ro ''account'' of
        Inl exn \<Rightarrow> False
      | Inr number \<Rightarrow>
          list_all testable (callbacks (detectOperator net (JStr (''7'' @ to_string number)) report)))"
| "reads_succeed self net (ToCard ro) =
     (case get_prop ro ''account'' of
        Inl exn \<Rightarrow> False
      | Inr cardNumber \<Rightarrow> list_all testable (callbacks (detectCard self net cardNumber report)))"
| "reads_succeed self net _ = True"

text \<open>Operator detection of \<^verbatim>\<open>toMobilePhone\<close> fails.\<close>

fun operator_not_detected :: "transport \<Rightarrow> operation \<Rightarrow> bool" where
  "operator_not_detected net (ToMobilePhone ro) =
     (case get_prop ro ''account'' of
        Inl exn \<Rightarrow> False
      | Inr number \<Rightarrow>
          list_ex not_detected
            (callbacks (detectOperator net (JStr (''7'' @ to_string number)) report)))"
| "operator_not_detected net _ = False"

text \<open>Card detection of \<^verbatim>\<open>toCard\<close> fails.\<close>

fun card_not_detected :: "qiwi \<Rightarrow> transport \<Rightarrow> operation \<Rightarrow> bool" where
  "card_not_detected self net (ToCard ro) =
     (case get_prop ro ''account'' of
        Inl exn \<Rightarrow> False
      | Inr cardNumber \<Rightarrow> list_ex not_detected (callbacks (detectCard self net cardNumber report)))"
| "card_not_detected self net _ = False"

section \<open>Basic facts\<close>

lemma js_try_Inl [simp]: "js_try (Inl exn) k = [Throw exn]"
  by (simp add: js_try_def)

lemma js_try_Inr [simp]: "js_try (Inr v) k = k v"
  by (simp add: js_try_def)

lemma get_prop_nullish: "nullish v \<Longrightarrow> get_prop v k = Inl TypeError"
  by (cases v) simp_all

lemma get_prop_cases:
  "get_prop v k = Inl TypeError \<and> nullish v \<or> (\<exists>w. get_prop v k = Inr w \<and> \<not> nullish v)"
  by (cases v) simp_all

text \<open>A number of 22 digits is printed in exponent notation, also in a URL.\<close>

lemma to_string_1e21: "to_string (JNum 1000000000000000000000) = ''1e+21''"
  by (simp add: number_to_string_def nat_to_string_def double_to_string_def Let_def
        dec_of_nat.simps upt_rec round_to_double_def bit_length.simps strip_zeros.simps)

lemma request_call_unfold:
  "request_call net verb options h =
     Request verb options # h (fst (net verb options)) (snd (net verb options))"
  by (simp add: request_call_def split: prod.split)

section \<open>Normalization and the shape of a call\<close>

lemma processRequestCallback_error:
  "\<not> nullish error \<Longrightarrow> processRequestCallback error body callback = callback error JNull"
  by (simp add: processRequestCallback_def)

lemma processRequestCallback_error_body:
  "nullish error \<Longrightarrow> get_prop body ''errorCode'' = Inr code \<Longrightarrow> \<not> nullish code \<Longrightarrow>
   processRequestCallback error body callback = callback body JNull"
  by (simp add: processRequestCallback_def)

lemma processRequestCallback_success:
  "nullish error \<Longrightarrow> get_prop body ''errorCode'' = Inr code \<Longrightarrow> nullish code \<Longrightarrow>
   processRequestCallback error body callback = callback JNull body"
  by (simp add: processRequestCallback_def)

lemma processRequestCallback_no_body:
  "nullish error \<Longrightarrow> nullish body \<Longrightarrow> processRequestCallback error body callback = [Throw TypeError]"
  by (simp add: processRequestCallback_def get_prop_nullish)

lemma processRequestCallback_report:
  "processRequestCallback error body report =
     (if \<not> nullish error then [Callback error JNull]
      else if nullish body then [Throw TypeError]
      else if \<exists>code. get_prop body ''errorCode'' = Inr code \<and> \<not> nullish code
        then [Callback body JNull]
      else [Callback JNull body])"
  using get_prop_cases [of body "''errorCode''"]
  by (auto simp: processRequestCallback_def report_def)

lemma on_response_report:
  "on_response report error response =
     (if nullish response then [Throw TypeError]
      else processRequestCallback error (projr (get_prop response ''body'')) report)"
  using get_prop_cases [of response "''body''"]
  by (auto simp: on_response_def)

lemma settled_processRequestCallback: "settled (processRequestCallback error body report)"
  by (simp add: processRequestCallback_report one_sided_def)

lemma settled_on_response: "settled (on_response report error response)"
  by (simp add: on_response_report settled_processRequestCallback)

lemma settled_js_try: "(\<And>v. r = Inr v \<Longrightarrow> settled (k v)) \<Longrightarrow> settled (js_try r k)"
  by (cases r) simp_all

lemma settled_request_call:
  "(\<And>error response. settled (h error response)) \<Longrightarrow> settled (request_call net verb options h)"
  by (simp add: request_call_unfold)

lemmas settled_intros = settled_js_try settled_request_call settled_on_response

lemma settled_simple_request: "settled (request_call net verb options (on_response report))"
  by (intro settled_intros)


lemma settled_on_response_then:
  "(\<And>err data. settled (k err data)) \<Longrightarrow> settled (on_response k error response)"
  by (cases "get_prop response ''body''"; cases "get_prop (projr (get_prop response ''body'')) ''errorCode''")
     (simp_all add: on_response_def processRequestCallback_def)

lemma settled_report: "\<not> nullish err \<Longrightarrow> nullish data \<Longrightarrow> settled (report err data)"
  by (simp add: report_def one_sided_def)

lemma settled_throw: "settled [Throw x]"
  by simp

lemma settled_if: "(c \<Longrightarrow> settled a) \<Longrightarrow> (\<not> c \<Longrightarrow> settled b) \<Longrightarrow> settled (if c then a else b)"
  by simp

lemmas settled_steps =
  settled_js_try settled_request_call settled_on_response settled_on_response_then
  settled_if settled_throw

lemma settled_getOperationHistory: "settled (getOperationHistory self net ro report)"
  unfolding getOperationHistory_def getAccountInfo_def Let_def
  by (intro settled_steps settled_report) simp_all

lemma settled_getOperationStatistics: "settled (getOperationStatistics self net ro report)"
  unfolding getOperationStatistics_def getAccountInfo_def Let_def
  by (intro settled_steps settled_report) simp_all

lemma settled_toMobilePhone: "settled (toMobilePhone self net now ro report)"
  unfolding toMobilePhone_def detectOperator_def Let_def
  by (intro settled_steps)

lemma settled_toCard: "settled (toCard self net now ro report)"
  unfolding toCard_def detectCard_def Let_def
  by (intro settled_steps settled_report) simp_all

lemma settled_toWallet: "settled (toWallet self net now ro report)"
  unfolding toWallet_def Let_def by (intro settled_steps)

lemma settled_toBank: "settled (toBank self net now ro recipient report)"
  unfolding toBank_def Let_def by (intro settled_steps)

lemma settled_checkOnlineCommission: "settled (checkOnlineCommission self net recipient ro report)"
  unfolding checkOnlineCommission_def Let_def by (intro settled_steps)

lemmas simple_operation_defs =
  getIdentificationData_def identifyWallet_def getAccountInfo_def getBalance_def
  getTransactionInfo_def getReceipt_def checkCommission_def detectCard_def getCrossRates_def
  addWebHook_def removeWebHook_def getWebHookSecret_def requestNewWebHookSecret_def
  getActiveWebHook_def testActiveWebHook_def

lemma settled_invoke: "settled (invoke self net now op report)"
proof (cases op)
  case (GetOperationHistory ro)
  then show ?thesis by (simp add: settled_getOperationHistory)
next
  case (GetOperationStatistics ro)
  then show ?thesis by (simp add: settled_getOperationStatistics)
next
  case (ToWallet ro)
  then show ?thesis by (simp add: settled_toWallet)
next
  case (ToMobilePhone ro)
  then show ?thesis by (simp add: settled_toMobilePhone)
next
  case (ToCard ro)
  then show ?thesis by (simp add: settled_toCard)
next
  case (ToBank ro recipient)
  then show ?thesis by (simp add: settled_toBank)
next
  case (CheckOnlineCommission recipient ro)
  then show ?thesis by (simp add: settled_checkOnlineCommission)
qed (simp_all add: simple_operation_defs settled_simple_request)

lemma settled_outcome:
  "settled tr \<Longrightarrow>
     length (callbacks tr) = (if thrown_values tr = [] then 1 else 0) \<and>
     length (thrown_values tr) \<le> 1 \<and>
     (\<forall>p \<in> set (callbacks tr). one_sided p)"
  by (induction tr rule: settled.induct) simp_all


lemma requests_on_response: "requests (on_response report error response) = []"
  by (simp add: on_response_report processRequestCallback_report)

lemma requests_simple_request:
  "requests (request_call net verb options (on_response report)) = [(verb, options)]"
  by (simp add: request_call_unfold requests_on_response)

lemma all_requests_js_try:
  "(\<And>v. r = Inr v \<Longrightarrow> list_all P (requests (k v))) \<Longrightarrow> list_all P (requests (js_try r k))"
  by (cases r) simp_all

lemma all_requests_request_call:
  "P (verb, options) \<Longrightarrow> (\<And>error response. list_all P (requests (h error response))) \<Longrightarrow>
   list_all P (requests (request_call net verb options h))"
  by (simp add: request_call_unfold)

lemma all_requests_on_response: "list_all P (requests (on_response report error response))"
  by (simp add: requests_on_response)

lemma all_requests_on_response_then:
  "(\<And>err data. list_all P (requests (k err data))) \<Longrightarrow>
   list_all P (requests (on_response k error response))"
  by (cases "get_prop response ''body''"; cases "get_prop (projr (get_prop response ''body'')) ''errorCode''")
     (simp_all add: on_response_def processRequestCallback_def)

lemma all_requests_report: "list_all P (requests (report err data))"
  by (simp add: report_def)

lemma all_requests_throw: "list_all P (requests [Throw x])"
  by simp

lemma all_requests_if:
  "(c \<Longrightarrow> list_all P (requests a)) \<Longrightarrow> (\<not> c \<Longrightarrow> list_all P (requests b)) \<Longrightarrow>
   list_all P (requests (if c then a else b))"
  by simp

lemmas all_requests_steps =
  all_requests_js_try all_requests_request_call all_requests_on_response
  all_requests_on_response_then all_requests_report all_requests_throw all_requests_if

lemma carries_authorization_headers:
  "carries_authorization tok (JObj ((''url'', u) # (''headers'', headers (Qiwi tok)) # rest))"
  by (simp add: carries_authorization_def Qiwi_def)

lemma carries_authorization_no_headers:
  "\<not> carries_authorization tok (JObj [(''url'', u), (''json'', j)])"
  "\<not> carries_authorization tok (JObj [(''url'', u), (''body'', b), (''json'', j)])"
  "\<not> carries_authorization tok (JObj ((''url'', u) # (''headers'', JUndefined) # rest))"
  by (simp_all add: carries_authorization_def)

lemma apiUri_Qiwi: "apiUri (Qiwi tok) = ''https://edge.qiwi.com''"
  by (simp add: Qiwi_def)

lemma authorization_invoke:
  "list_all (authorization_as_built tok op) (requests (invoke (Qiwi tok) net now op report))"
proof (cases op)
  case (GetOperationHistory ro)
  then show ?thesis
    unfolding GetOperationHistory invoke.simps getOperationHistory_def getAccountInfo_def Let_def
    by (intro all_requests_steps)
       (simp_all add: authorization_as_built_def carries_authorization_headers)
next
  case (GetOperationStatistics ro)
  then show ?thesis
    unfolding GetOperationStatistics invoke.simps getOperationStatistics_def getAccountInfo_def Let_def
    by (intro all_requests_steps)
       (simp_all add: authorization_as_built_def carries_authorization_headers)
next
  case (ToWallet ro)
  then show ?thesis
    unfolding ToWallet invoke.simps toWallet_def Let_def
    by (intro all_requests_steps)
       (simp_all add: authorization_as_built_def carries_authorization_headers)
next
  case (ToMobilePhone ro)
  then show ?thesis
    unfolding ToMobilePhone invoke.simps toMobilePhone_def detectOperator_def Let_def
    by (intro all_requests_steps)
       (simp_all add: authorization_as_built_def carries_authorization_headers
          carries_authorization_no_headers apiUri_Qiwi)
next
  case (ToCard ro)
  then show ?thesis
    unfolding ToCard invoke.simps toCard_def detectCard_def Let_def
    by (intro all_requests_steps)
       (simp_all add: authorization_as_built_def carries_authorization_headers)
next
  case (ToBank ro recipient)
  then show ?thesis
    unfolding ToBank invoke.simps toBank_def Let_def
    by (intro all_requests_steps)
       (simp_all add: authorization_as_built_def carries_authorization_headers)
next
  case (CheckOnlineCommission recipient ro)
  then show ?thesis
    unfolding CheckOnlineCommission invoke.simps checkOnlineCommission_def Let_def
    by (intro all_requests_steps)
       (simp_all add: authorization_as_built_def carries_authorization_no_headers)
qed (simp_all add: simple_operation_defs requests_simple_request authorization_as_built_def
       carries_authorization_headers carries_authorization_no_headers)

section \<open>Replies without a body\<close>

lemma on_response_no_body:
  "nullish error \<Longrightarrow> get_prop response ''body'' = Inr body \<Longrightarrow> nullish body \<Longrightarrow>
   on_response callback error response = [Throw TypeError]"
  by (simp add: on_response_def processRequestCallback_no_body)

lemma aborted_request:
  assumes "\<And>verb options. empty_reply (net verb options)"
  shows "callbacks (request_call net verb options (on_response k)) = [] \<and>
         thrown_values (request_call net verb options (on_response k)) = [TypeError]"
proof -
  obtain error response where reply: "net verb options = (error, response)"
    by (cases "net verb options")
  with assms [of verb options] obtain body
    where "nullish error" "get_prop response ''body'' = Inr body" "nullish body"
    by (auto simp: empty_reply_def split: sum.splits)
  then have "on_response k error response = [Throw TypeError]"
    by (rule on_response_no_body)
  with reply show ?thesis
    by (simp add: request_call_def)
qed

lemma aborted_js_try:
  "(\<And>w. callbacks (k w) = [] \<and> thrown_values (k w) = [TypeError]) \<Longrightarrow>
   callbacks (js_try (get_prop v key) k) = [] \<and>
   thrown_values (js_try (get_prop v key) k) = [TypeError]"
  using get_prop_cases [of v key] by auto

lemma aborted_invoke:
  assumes "\<And>verb options. empty_reply (net verb options)"
  shows "callbacks (invoke self net now op cb) = [] \<and>
         thrown_values (invoke self net now op cb) = [TypeError]"
proof (cases op)
  case (GetOperationHistory ro)
  then show ?thesis
    unfolding GetOperationHistory invoke.simps getOperationHistory_def getAccountInfo_def Let_def
    by (intro aborted_request assms)
next
  case (GetOperationStatistics ro)
  then show ?thesis
    unfolding GetOperationStatistics invoke.simps getOperationStatistics_def getAccountInfo_def Let_def
    by (intro aborted_request assms)
next
  case (ToWallet ro)
  then show ?thesis
    unfolding ToWallet invoke.simps toWallet_def Let_def
    by (intro aborted_js_try aborted_request assms)
next
  case (ToMobilePhone ro)
  then show ?thesis
    unfolding ToMobilePhone invoke.simps toMobilePhone_def detectOperator_def Let_def
    by (intro aborted_js_try aborted_request assms)
next
  case (ToCard ro)
  then show ?thesis
    unfolding ToCard invoke.simps toCard_def detectCard_def Let_def
    by (intro aborted_js_try aborted_request assms)
next
  case (ToBank ro recipient)
  then show ?thesis
    unfolding ToBank invoke.simps toBank_def Let_def
    by (intro aborted_js_try aborted_request assms)
next
  case (CheckOnlineCommission recipient ro)
  then show ?thesis
    unfolding CheckOnlineCommission invoke.simps checkOnlineCommission_def Let_def
    by (intro aborted_js_try aborted_request assms)
qed (simp_all add: simple_operation_defs aborted_request assms)

section \<open>Claims on response normalization\<close>

text \<open>
  Claim C10. The normalization function reads \<^verbatim>\<open>body.errorCode\<close> without a guard:
  when there is no transport error and the body is \<^verbatim>\<open>null\<close> or \<^verbatim>\<open>undefined\<close>, it
  throws and invokes no callback. Hence an operation whose requests are all answered
  that way throws a \<^verbatim>\<open>TypeError\<close> and never invokes the completion callback.
\<close>

theorem normalization_requires_body:
  "(nullish error \<and> nullish body \<longrightarrow>
      processRequestCallback error body callback = [Throw TypeError]) \<and>
   ((\<forall>verb options. empty_reply (net verb options)) \<longrightarrow>
      callbacks (invoke self net now op report) = [] \<and>
      thrown_values (invoke self net now op report) = [TypeError])"
  using aborted_invoke [of net self now op report]
  by (simp add: processRequestCallback_no_body)

text \<open>Claim C10, witness: an empty reply to \<^verbatim>\<open>getBalance\<close>.\<close>

theorem normalization_requires_body_witness:
  "nullish JNull \<and> nullish JUndefined \<and>
   (\<forall>verb options. empty_reply (answering JNull (JObj [(''statusCode'', JNum 204)]) verb options)) \<and>
   processRequestCallback JNull JUndefined report = [Throw TypeError] \<and>
   callbacks (invoke (Qiwi ''token'') (answering JNull (JObj [(''statusCode'', JNum 204)])) 0
     GetBalance report) = [] \<and>
   thrown_values (invoke (Qiwi ''token'') (answering JNull (JObj [(''statusCode'', JNum 204)])) 0
     GetBalance report) = [TypeError]"
  using normalization_requires_body [of JNull JUndefined report
      "answering JNull (JObj [(''statusCode'', JNum 204)])" "Qiwi ''token''" 0 GetBalance]
  by (simp add: empty_reply_def answering_def)

text \<open>
  Claim C7 says that a body with an error code is delivered as \<^verbatim>\<open>(body, null)\<close> whether or
  not a transport error occurred. Counterexample: with a transport error the function
  delivers the transport error, not the body.
\<close>

theorem error_body_under_transport_error_counterexample:
  "processRequestCallback (JErr ''ETIMEDOUT'') (JObj [(''errorCode'', JStr ''QWPRC-1021'')]) report
     = [Callback (JErr ''ETIMEDOUT'') JNull] \<and>
   processRequestCallback (JErr ''ETIMEDOUT'') (JObj [(''errorCode'', JStr ''QWPRC-1021'')]) report
     \<noteq> [Callback (JObj [(''errorCode'', JStr ''QWPRC-1021'')]) JNull]"
  by (simp add: processRequestCallback_def report_def)

text \<open>
  Claim C7, amended: a body whose error-code field is defined (neither \<^verbatim>\<open>null\<close> nor
  \<^verbatim>\<open>undefined\<close>) is delivered as \<^verbatim>\<open>(body, null)\<close> when no transport error occurred;
  when one occurred, \<^verbatim>\<open>(error, null)\<close> is delivered whatever the body holds.
\<close>

theorem error_body_is_delivered_as_error:
  assumes "get_prop body ''errorCode'' = Inr code" and "\<not> nullish code"
  shows "processRequestCallback error body callback =
           (if nullish error then callback body JNull else callback error JNull)"
  using assms by (simp add: processRequestCallback_def)

text \<open>Claim C7, witness of the amended statement.\<close>

theorem error_body_is_delivered_as_error_witness:
  "get_prop (JObj [(''errorCode'', JStr ''QWPRC-1021'')]) ''errorCode'' = Inr (JStr ''QWPRC-1021'') \<and>
   \<not> nullish (JStr ''QWPRC-1021'') \<and>
   processRequestCallback JNull (JObj [(''errorCode'', JStr ''QWPRC-1021'')]) report
     = [Callback (JObj [(''errorCode'', JStr ''QWPRC-1021'')]) JNull]"
proof -
  have code: "get_prop (JObj [(''errorCode'', JStr ''QWPRC-1021'')]) ''errorCode'' = Inr (JStr ''QWPRC-1021'')"
    by simp
  have defined: "\<not> nullish (JStr ''QWPRC-1021'')"
    by simp
  show ?thesis
    using code defined error_body_is_delivered_as_error [OF code defined, of JNull report]
    by (simp add: report_def)
qed

text \<open>
  Claim C1 at a \<^verbatim>\<open>null\<close> body without transport error: the claim's last case says
  \<^verbatim>\<open>(null, body)\<close> is delivered; the function throws instead.
\<close>

theorem normalization_of_null_body:
  "processRequestCallback JNull JNull report = [Throw TypeError] \<and>
   processRequestCallback JNull JNull report \<noteq> [Callback JNull JNull]"
  by (simp add: processRequestCallback_def)

section \<open>The callback contract\<close>


text \<open>No call invokes the callback twice, whatever the replies.\<close>

lemma callback_at_most_once: "length (callbacks (invoke self net now op report)) \<le> 1"
  using settled_outcome [OF settled_invoke, of self net now op] by simp

subsection \<open>Calls whose reads succeed\<close>

lemma on_response_sound:
  assumes "sound_reply (error, response)"
  shows "\<exists>err data. (\<forall>k. on_response k error response = k err data) \<and>
           (\<not> nullish err \<and> data = JNull \<or> err = JNull \<and> \<not> nullish data)"
proof -
  from assms obtain body where body: "get_prop response ''body'' = Inr body"
    using get_prop_cases [of response "''body''"] by (auto simp: sound_reply_def)
  show ?thesis
  proof (cases "nullish error")
    case False
    then have "\<forall>k. on_response k error response = k error JNull"
      by (simp add: on_response_def body processRequestCallback_def)
    with False show ?thesis by blast
  next
    case True
    with assms body have present: "\<not> nullish body"
      by (simp add: sound_reply_def)
    then obtain code where code: "get_prop body ''errorCode'' = Inr code"
      using get_prop_cases [of body "''errorCode''"] by auto
    show ?thesis
    proof (cases "nullish code")
      case True
      with \<open>nullish error\<close> have "\<forall>k. on_response k error response = k JNull body"
        by (simp add: on_response_def body processRequestCallback_def code)
      with present show ?thesis by blast
    next
      case False
      with \<open>nullish error\<close> have "\<forall>k. on_response k error response = k body JNull"
        by (simp add: on_response_def body processRequestCallback_def code)
      with present show ?thesis by blast
    qed
  qed
qed

lemma request_sound:
  assumes "\<forall>verb options. sound_reply (net verb options)"
  shows "\<exists>err data.
           (\<forall>k. request_call net verb options (on_response k) = Request verb options # k err data) \<and>
           (\<not> nullish err \<and> data = JNull \<or> err = JNull \<and> \<not> nullish data)"
proof -
  from assms have "sound_reply (fst (net verb options), snd (net verb options))"
    by simp
  from on_response_sound [OF this] show ?thesis
    by (simp add: request_call_unfold)
qed

lemma simple_contract:
  assumes "\<forall>verb options. sound_reply (net verb options)"
  shows "thrown_values (request_call net verb options (on_response report)) = [] \<and>
         (\<exists>err data. callbacks (request_call net verb options (on_response report)) = [(err, data)] \<and>
            (\<not> nullish err \<and> data = JNull \<or> err = JNull \<and> \<not> nullish data))"
proof -
  from request_sound [OF assms, of verb options] obtain err data
    where "\<And>k. request_call net verb options (on_response k) = Request verb options # k err data"
      and "\<not> nullish err \<and> data = JNull \<or> err = JNull \<and> \<not> nullish data"
    by blast
  then show ?thesis
    by (simp add: report_def)
qed

lemma readable_path:
  assumes "\<not> isl (get_path v [k1, k2])"
  obtains w x where "get_prop v k1 = Inr w" "get_prop w k2 = Inr x" "get_path v [k1, k2] = Inr x"
  using assms by (cases "get_prop v k1"; cases "get_prop (projr (get_prop v k1)) k2") auto

lemma two_step_contract:
  assumes sound: "\<forall>verb options. sound_reply (net verb options)"
    and reads: "list_all identified (callbacks (getAccountInfo self net report))"
  shows "thrown_values (getOperationHistory self net ro report) = [] \<and>
         (\<exists>err data. callbacks (getOperationHistory self net ro report) = [(err, data)] \<and>
            (\<not> nullish err \<and> data = JNull \<or> err = JNull \<and> \<not> nullish data))"
    and "thrown_values (getOperationStatistics self net ro report) = [] \<and>
         (\<exists>err data. callbacks (getOperationStatistics self net ro report) = [(err, data)] \<and>
            (\<not> nullish err \<and> data = JNull \<or> err = JNull \<and> \<not> nullish data))"
proof -
  let ?options = "JObj [
        (''url'', JStr (apiUri self @ ''/person-profile/v1/profile/current'')),
        (''headers'', headers self),
        (''json'', JBool True)]"
  from request_sound [OF sound, of GET ?options] obtain err data
    where step: "\<And>k. request_call net GET ?options (on_response k) = Request GET ?options # k err data"
      and pair: "\<not> nullish err \<and> data = JNull \<or> err = JNull \<and> \<not> nullish data"
    by blast
  from reads have known: "identified (err, data)"
    by (simp add: getAccountInfo_def step report_def)
  show "thrown_values (getOperationHistory self net ro report) = [] \<and>
         (\<exists>err data. callbacks (getOperationHistory self net ro report) = [(err, data)] \<and>
            (\<not> nullish err \<and> data = JNull \<or> err = JNull \<and> \<not> nullish data))"
  proof (cases "nullish err")
    case False
    then show ?thesis
      by (simp add: getOperationHistory_def getAccountInfo_def step report_def)
  next
    case True
    with pair known have "\<not> nullish data"
      and readable: "\<not> isl (get_path data [''authInfo'', ''personId''])"
      by auto
    from readable obtain authInfo personId
      where "get_prop data ''authInfo'' = Inr authInfo" "get_prop authInfo ''personId'' = Inr personId"
      by (blast elim: readable_path)
    with True \<open>\<not> nullish data\<close> show ?thesis
      using simple_contract [OF sound]
      by (simp add: getOperationHistory_def getAccountInfo_def step)
  qed
  show "thrown_values (getOperationStatistics self net ro report) = [] \<and>
         (\<exists>err data. callbacks (getOperationStatistics self net ro report) = [(err, data)] \<and>
            (\<not> nullish err \<and> data = JNull \<or> err = JNull \<and> \<not> nullish data))"
  proof (cases "nullish err")
    case False
    then show ?thesis
      by (simp add: getOperationStatistics_def getAccountInfo_def step report_def)
  next
    case True
    with pair known have "\<not> nullish data"
      and readable: "\<not> isl (get_path data [''authInfo'', ''personId''])"
      by auto
    from readable obtain authInfo personId
      where "get_prop data ''authInfo'' = Inr authInfo" "get_prop authInfo ''personId'' = Inr personId"
      by (blast elim: readable_path)
    with True \<open>\<not> nullish data\<close> show ?thesis
      using simple_contract [OF sound]
      by (simp add: getOperationStatistics_def getAccountInfo_def step)
  qed
qed

lemma options_contract:
  assumes sound: "\<forall>verb options. sound_reply (net verb options)" and ro: "\<not> nullish ro"
  shows "thrown_values (toWallet self net now ro report) = [] \<and>
         (\<exists>err data. callbacks (toWallet self net now ro report) = [(err, data)] \<and>
            (\<not> nullish err \<and> data = JNull \<or> err = JNull \<and> \<not> nullish data))"
    and "thrown_values (toBank self net now ro recipient report) = [] \<and>
         (\<exists>err data. callbacks (toBank self net now ro recipient report) = [(err, data)] \<and>
            (\<not> nullish err \<and> data = JNull \<or> err = JNull \<and> \<not> nullish data))"
    and "thrown_values (checkOnlineCommission self net recipient ro report) = [] \<and>
         (\<exists>err data. callbacks (checkOnlineCommission self net recipient ro report) = [(err, data)] \<and>
            (\<not> nullish err \<and> data = JNull \<or> err = JNull \<and> \<not> nullish data))"
proof -
  have read: "\<exists>w. get_prop ro k = Inr w" for k
    using ro get_prop_cases [of ro k] by auto
  from read [of "''amount''"] read [of "''comment''"] read [of "''account''"]
    read [of "''account_type''"] read [of "''exp_date''"]
  obtain amount comment account account_type exp_date
    where fields: "get_prop ro ''amount'' = Inr amount" "get_prop ro ''comment'' = Inr comment"
      "get_prop ro ''account'' = Inr account" "get_prop ro ''account_type'' = Inr account_type"
      "get_prop ro ''exp_date'' = Inr exp_date"
    by blast
  show "thrown_values (toWallet self net now ro report) = [] \<and>
         (\<exists>err data. callbacks (toWallet self net now ro report) = [(err, data)] \<and>
            (\<not> nullish err \<and> data = JNull \<or> err = JNull \<and> \<not> nullish data))"
    using simple_contract [OF sound] by (simp add: toWallet_def fields)
  show "thrown_values (toBank self net now ro recipient report) = [] \<and>
         (\<exists>err data. callbacks (toBank self net now ro recipient report) = [(err, data)] \<and>
            (\<not> nullish err \<and> data = JNull \<or> err = JNull \<and> \<not> nullish data))"
    using simple_contract [OF sound] by (simp add: toBank_def fields)
  show "thrown_values (checkOnlineCommission self net recipient ro report) = [] \<and>
         (\<exists>err data. callbacks (checkOnlineCommission self net recipient ro report) = [(err, data)] \<and>
            (\<not> nullish err \<and> data = JNull \<or> err = JNull \<and> \<not> nullish data))"
    using simple_contract [OF sound] by (simp add: checkOnlineCommission_def fields)
qed

lemma detection_contract:
  assumes sound: "\<forall>verb options. sound_reply (net verb options)"
    and ro: "get_prop ro ''account'' = Inr number"
  shows "list_all testable (callbacks (detectOperator net (JStr (''7'' @ to_string number)) report)) \<Longrightarrow>
         (if list_ex not_detected
               (callbacks (detectOperator net (JStr (''7'' @ to_string number)) report))
          then callbacks (toMobilePhone self net now ro report) = [] \<and>
               thrown_values (toMobilePhone self net now ro report)
                 = [Raised (JErr cant_detect_operator)]
          else thrown_values (toMobilePhone self net now ro report) = [] \<and>
               (\<exists>err data. callbacks (toMobilePhone self net now ro report) = [(err, data)] \<and>
                  (\<not> nullish err \<and> data = JNull \<or> err = JNull \<and> \<not> nullish data)))"
    and "list_all testable (callbacks (detectCard self net number report)) \<Longrightarrow>
         thrown_values (toCard self net now ro report) = [] \<and>
         (\<exists>err data. callbacks (toCard self net now ro report) = [(err, data)] \<and>
            (\<not> nullish err \<and> data = JNull \<or> err = JNull \<and> \<not> nullish data \<or>
             list_ex not_detected (callbacks (detectCard self net number report)) \<and>
             err = JErr ''Wrong card number!''))"
proof -
  have read: "\<exists>w. get_prop ro k = Inr w" for k
    using ro get_prop_cases [of ro k] get_prop_nullish [of ro "''account''"] by auto
  from read [of "''amount''"] read [of "''comment''"]
  obtain amount comment
    where fields: "get_prop ro ''amount'' = Inr amount" "get_prop ro ''comment'' = Inr comment"
    by blast
  have status: "\<exists>code status message.
      get_prop data ''code'' = Inr code \<and> get_prop code ''value'' = Inr status \<and>
      get_path data [''code'', ''value''] = Inr status \<and> get_prop data ''message'' = Inr message"
    if "testable (err, data)" "\<not> truthy err" for err data
  proof -
    from that have "\<not> isl (get_path data [''code'', ''value''])"
      by simp
    then obtain code status
      where code: "get_prop data ''code'' = Inr code" "get_prop code ''value'' = Inr status"
        "get_path data [''code'', ''value''] = Inr status"
      by (blast elim: readable_path)
    then have "\<exists>message. get_prop data ''message'' = Inr message"
      using get_prop_cases [of data "''message''"] get_prop_nullish [of data "''code''"] by auto
    with code show ?thesis by blast
  qed
  {
    define phone where "phone = JStr (''7'' @ to_string number)"
    let ?options = "JObj [
        (''url'', JStr ''https://qiwi.com/mobile/detect.action''),
        (''headers'', JUndefined),
        (''qs'', JObj [(''phone'', phone)]),
        (''json'', JBool True)]"
    assume reads: "list_all testable (callbacks (detectOperator net (JStr (''7'' @ to_string number)) report))"
    from request_sound [OF sound, of POST ?options] obtain err data
      where "\<And>k. request_call net POST ?options (on_response k) = Request POST ?options # k err data"
      by blast
    then have step: "detectOperator net phone k = Request POST ?options # k err data" for k
      by (simp add: detectOperator_def)
    from reads have "list_all testable (callbacks (detectOperator net phone report))"
      unfolding phone_def .
    then have known: "testable (err, data)"
      by (simp add: step report_def)
    have "if list_ex not_detected (callbacks (detectOperator net phone report))
          then callbacks (toMobilePhone self net now ro report) = [] \<and>
               thrown_values (toMobilePhone self net now ro report)
                 = [Raised (JErr cant_detect_operator)]
          else thrown_values (toMobilePhone self net now ro report) = [] \<and>
               (\<exists>err data. callbacks (toMobilePhone self net now ro report) = [(err, data)] \<and>
                  (\<not> nullish err \<and> data = JNull \<or> err = JNull \<and> \<not> nullish data))"
    proof (cases "truthy err")
      case True
      then show ?thesis
        unfolding toMobilePhone_def ro js_try_Inr phone_def [symmetric]
        by (simp add: step report_def)
    next
      case False
      from status [OF known False] obtain code status message
        where "get_prop data ''code'' = Inr code" "get_prop code ''value'' = Inr status"
          "get_path data [''code'', ''value''] = Inr status" "get_prop data ''message'' = Inr message"
        by blast
      with False show ?thesis
        using simple_contract [OF sound]
        unfolding toMobilePhone_def ro js_try_Inr phone_def [symmetric]
        by (simp add: fields step report_def)
    qed
    then show "if list_ex not_detected
               (callbacks (detectOperator net (JStr (''7'' @ to_string number)) report))
          then callbacks (toMobilePhone self net now ro report) = [] \<and>
               thrown_values (toMobilePhone self net now ro report)
                 = [Raised (JErr cant_detect_operator)]
          else thrown_values (toMobilePhone self net now ro report) = [] \<and>
               (\<exists>err data. callbacks (toMobilePhone self net now ro report) = [(err, data)] \<and>
                  (\<not> nullish err \<and> data = JNull \<or> err = JNull \<and> \<not> nullish data))"
      unfolding phone_def .
  }
  {
    let ?options = "JObj [
        (''url'', JStr ''https://qiwi.com/card/detect.action''),
        (''headers'', headers self),
        (''qs'', JObj [(''cardNumber'', number)]),
        (''json'', JBool True)]"
    assume reads: "list_all testable (callbacks (detectCard self net number report))"
    from request_sound [OF sound, of POST ?options] obtain err data
      where "\<And>k. request_call net POST ?options (on_response k) = Request POST ?options # k err data"
      by blast
    then have step: "detectCard self net number k = Request POST ?options # k err data" for k
      by (simp add: detectCard_def)
    from reads have known: "testable (err, data)"
      by (simp add: step report_def)
    show "thrown_values (toCard self net now ro report) = [] \<and>
         (\<exists>err data. callbacks (toCard self net now ro report) = [(err, data)] \<and>
            (\<not> nullish err \<and> data = JNull \<or> err = JNull \<and> \<not> nullish data \<or>
             list_ex not_detected (callbacks (detectCard self net number report)) \<and>
             err = JErr ''Wrong card number!''))"
    proof (cases "truthy err")
      case True
      then show ?thesis
        by (simp add: toCard_def ro step report_def)
    next
      case False
      from status [OF known False] obtain code status message
        where "get_prop data ''code'' = Inr code" "get_prop code ''value'' = Inr status"
          "get_path data [''code'', ''value''] = Inr status" "get_prop data ''message'' = Inr message"
        by blast
      with False show ?thesis
        using simple_contract [OF sound]
        by (simp add: toCard_def ro fields step report_def)
    qed
  }
qed



section \<open>Two-step operations\<close>

lemma on_response_delivery:
  "on_response report error response = [Callback err data] \<Longrightarrow>
   on_response k error response = k err data"
  by (auto simp: on_response_def processRequestCallback_def report_def js_try_def
        split: sum.splits if_splits)

lemma on_response_never_empty:
  "on_response report error response = [Callback err data] \<Longrightarrow> nullish err \<Longrightarrow> \<not> nullish data"
  using get_prop_cases [of data "''errorCode''"] get_prop_cases [of err "''errorCode''"]
  by (auto simp: on_response_def processRequestCallback_def report_def js_try_def
        split: sum.splits if_splits)

lemma getAccountInfo_never_empty:
  "getAccountInfo self net report = [Request verb options, Callback err data] \<Longrightarrow>
   nullish err \<Longrightarrow> \<not> nullish data"
  by (auto simp: getAccountInfo_def request_call_unfold Let_def dest: on_response_never_empty)

lemma getAccountInfo_then:
  assumes "getAccountInfo self net report = [Request verb options, Callback err data]"
  shows "getAccountInfo self net k = Request verb options # k err data"
proof -
  let ?options = "JObj [
        (''url'', JStr (apiUri self @ ''/person-profile/v1/profile/current'')),
        (''headers'', headers self),
        (''json'', JBool True)]"
  from assms have req: "verb = GET" "options = ?options"
    and "on_response report (fst (net GET ?options)) (snd (net GET ?options)) = [Callback err data]"
    by (auto simp: getAccountInfo_def request_call_unfold Let_def)
  then have "on_response k (fst (net GET ?options)) (snd (net GET ?options)) = k err data"
    by (intro on_response_delivery)
  with req show ?thesis
    by (simp add: getAccountInfo_def request_call_unfold Let_def)
qed

text \<open>
  Claim C3. When the account-info step of \<^verbatim>\<open>getOperationHistory\<close> or
  \<^verbatim>\<open>getOperationStatistics\<close> yields a non-null error, the callback receives that very
  error with a \<^verbatim>\<open>null\<close> result, and the trace holds the account-info request only: the
  history or statistics request is not issued.
\<close>

theorem account_info_error_is_propagated:
  assumes "getAccountInfo self net report = [Request verb options, Callback err data]"
    and "\<not> nullish err"
  shows "getOperationHistory self net ro report = [Request verb options, Callback err JNull] \<and>
         getOperationStatistics self net ro report = [Request verb options, Callback err JNull]"
  using assms(2)
  by (simp add: getOperationHistory_def getOperationStatistics_def
        getAccountInfo_then [OF assms(1)] report_def)

text \<open>Claim C3, witness: the account-info request is answered with an error body.\<close>

theorem account_info_error_is_propagated_witness:
  "getOperationHistory (Qiwi ''token'')
     (answering JNull (JObj [(''body'', JObj [(''errorCode'', JStr ''auth.invalid'')])]))
     (JObj [(''rows'', JNum 10)]) report
   = [Request GET (JObj [(''url'', JStr ''https://edge.qiwi.com/person-profile/v1/profile/current''),
                         (''headers'', headers (Qiwi ''token'')), (''json'', JBool True)]),
      Callback (JObj [(''errorCode'', JStr ''auth.invalid'')]) JNull]"
proof -
  have step: "getAccountInfo (Qiwi ''token'')
       (answering JNull (JObj [(''body'', JObj [(''errorCode'', JStr ''auth.invalid'')])])) report
     = [Request GET (JObj [(''url'', JStr ''https://edge.qiwi.com/person-profile/v1/profile/current''),
                           (''headers'', headers (Qiwi ''token'')), (''json'', JBool True)]),
        Callback (JObj [(''errorCode'', JStr ''auth.invalid'')]) JNull]"
    by (simp add: getAccountInfo_def request_call_def answering_def on_response_def
          processRequestCallback_def report_def apiUri_Qiwi)
  have err: "\<not> nullish (JObj [(''errorCode'', JStr ''auth.invalid'')])"
    by simp
  show ?thesis
    using account_info_error_is_propagated [OF step err] by simp
qed

text \<open>
  Claim C9 at an account-info reply without transport error and with a \<^verbatim>\<open>null\<close> body:
  the claim expects the callback to receive the error "Can not retrieve account info".
  The normalization of the first step throws before the \<^verbatim>\<open>data == null\<close> guard of either
  operation is reached (see \<open>getAccountInfo_never_empty\<close>), and no callback is invoked.
\<close>

theorem account_info_without_data:
  "getOperationHistory (Qiwi ''token'') (answering JNull (JObj [(''body'', JNull)]))
     (JObj [(''rows'', JNum 10)]) report
   = [Request GET (JObj [(''url'', JStr ''https://edge.qiwi.com/person-profile/v1/profile/current''),
                         (''headers'', headers (Qiwi ''token'')), (''json'', JBool True)]),
      Throw TypeError] \<and>
   getOperationStatistics (Qiwi ''token'') (answering JNull (JObj [(''body'', JNull)]))
     (JObj [(''operation'', JStr ''ALL'')]) report
   = [Request GET (JObj [(''url'', JStr ''https://edge.qiwi.com/person-profile/v1/profile/current''),
                         (''headers'', headers (Qiwi ''token'')), (''json'', JBool True)]),
      Throw TypeError]"
  by (simp add: getOperationHistory_def getOperationStatistics_def getAccountInfo_def
        request_call_def answering_def on_response_def processRequestCallback_def apiUri_Qiwi)

section \<open>Detection before a payment\<close>

lemma on_response_error_data:
  "on_response report error response = [Callback err data] \<Longrightarrow> \<not> nullish err \<Longrightarrow> data = JNull"
  by (auto simp: on_response_def processRequestCallback_def report_def js_try_def
        split: sum.splits if_splits)

lemma detectOperator_then:
  assumes "detectOperator net phone report = [Request verb options, Callback err data]"
  shows "detectOperator net phone k = Request verb options # k err data"
    and "\<not> nullish err \<Longrightarrow> data = JNull"
proof -
  let ?options = "JObj [
        (''url'', JStr ''https://qiwi.com/mobile/detect.action''),
        (''headers'', JUndefined),
        (''qs'', JObj [(''phone'', phone)]),
        (''json'', JBool True)]"
  from assms have req: "verb = POST" "options = ?options"
    and reply: "on_response report (fst (net POST ?options)) (snd (net POST ?options))
                  = [Callback err data]"
    by (auto simp: detectOperator_def request_call_unfold Let_def)
  from reply have "on_response k (fst (net POST ?options)) (snd (net POST ?options)) = k err data"
    by (intro on_response_delivery)
  with req show "detectOperator net phone k = Request verb options # k err data"
    by (simp add: detectOperator_def request_call_unfold Let_def)
  show "data = JNull" if "\<not> nullish err"
    using reply that by (rule on_response_error_data)
qed

lemma detectCard_then:
  assumes "detectCard self net cardNumber report = [Request verb options, Callback err data]"
  shows "detectCard self net cardNumber k = Request verb options # k err data"
proof -
  let ?options = "JObj [
        (''url'', JStr ''https://qiwi.com/card/detect.action''),
        (''headers'', headers self),
        (''qs'', JObj [(''cardNumber'', cardNumber)]),
        (''json'', JBool True)]"
  from assms have req: "verb = POST" "options = ?options"
    and reply: "on_response report (fst (net POST ?options)) (snd (net POST ?options))
                  = [Callback err data]"
    by (auto simp: detectCard_def request_call_unfold Let_def)
  from reply have "on_response k (fst (net POST ?options)) (snd (net POST ?options)) = k err data"
    by (intro on_response_delivery)
  with req show ?thesis
    by (simp add: detectCard_def request_call_unfold Let_def)
qed

lemma status_2:
  assumes "get_path data [''code'', ''value''] = Inr status"
  obtains code where "get_prop data ''code'' = Inr code" "get_prop code ''value'' = Inr status"
  using assms by (auto split: sum.splits)

text \<open>
  Claim C4. In \<^verbatim>\<open>toMobilePhone\<close>, when operator detection yields a non-null error or a
  status code equal to "2", the call ends in an exception right after the detection
  request: the callback is not invoked and no payment request is issued. The exception
  is the error "Can't detect operator." (a \<^verbatim>\<open>TypeError\<close> only for a non-null error
  value that counts as false).
\<close>

theorem toMobilePhone_detection_failure:
  assumes number: "get_prop ro ''account'' = Inr number"
    and detection: "detectOperator net (JStr (''7'' @ to_string number)) report
                      = [Request verb options, Callback err data]"
    and failure: "\<not> nullish err \<or>
                  (\<exists>status. get_path data [''code'', ''value''] = Inr status \<and> loose_equals_2 status)"
  shows "toMobilePhone self net now ro report =
           [Request verb options,
            Throw (if \<not> nullish err \<and> \<not> truthy err then TypeError
                   else Raised (JErr cant_detect_operator))]"
proof (cases "truthy err")
  note run = detectOperator_then(1) [OF detection [simplified]]
  case True
  then show ?thesis
    by (simp add: toMobilePhone_def number run)
next
  note run = detectOperator_then(1) [OF detection [simplified]]
  case False
  show ?thesis
  proof (cases "nullish err")
    case True
    with failure obtain status
      where "get_path data [''code'', ''value''] = Inr status" and two: "loose_equals_2 status"
      by blast
    then obtain code
      where "get_prop data ''code'' = Inr code" "get_prop code ''value'' = Inr status"
      by (elim status_2)
    with two True \<open>\<not> truthy err\<close> show ?thesis
      by (simp add: toMobilePhone_def number run)
  next
    case False
    then have "data = JNull"
      by (rule detectOperator_then(2) [OF detection])
    with False \<open>\<not> truthy err\<close> show ?thesis
      by (simp add: toMobilePhone_def number run)
  qed
qed

text \<open>Claim C4, witness: detection answers with status code "2".\<close>

theorem toMobilePhone_detection_failure_witness:
  "toMobilePhone (Qiwi ''token'')
     (answering JNull (JObj [(''body'', JObj [(''code'', JObj [(''value'', JStr ''2'')])])])) 0
     (JObj [(''amount'', JNum 10), (''comment'', JStr ''test''), (''account'', JStr ''9261234567'')])
     report
   = [Request POST (JObj [(''url'', JStr ''https://qiwi.com/mobile/detect.action''),
                          (''headers'', JUndefined),
                          (''qs'', JObj [(''phone'', JStr ''79261234567'')]),
                          (''json'', JBool True)]),
      Throw (Raised (JErr cant_detect_operator))]"
proof -
  let ?net = "answering JNull (JObj [(''body'', JObj [(''code'', JObj [(''value'', JStr ''2'')])])])"
  let ?ro = "JObj [(''amount'', JNum 10), (''comment'', JStr ''test''), (''account'', JStr ''9261234567'')]"
  have number: "get_prop ?ro ''account'' = Inr (JStr ''9261234567'')"
    by simp
  have detection: "detectOperator ?net (JStr (''7'' @ to_string (JStr ''9261234567''))) report
     = [Request POST (JObj [(''url'', JStr ''https://qiwi.com/mobile/detect.action''),
                            (''headers'', JUndefined),
                            (''qs'', JObj [(''phone'', JStr ''79261234567'')]),
                            (''json'', JBool True)]),
        Callback JNull (JObj [(''code'', JObj [(''value'', JStr ''2'')])])]"
    by (simp add: detectOperator_def request_call_def answering_def on_response_def
          processRequestCallback_def report_def)
  have failure: "\<not> nullish JNull \<or>
      (\<exists>status. get_path (JObj [(''code'', JObj [(''value'', JStr ''2'')])]) [''code'', ''value'']
                  = Inr status \<and> loose_equals_2 status)"
    by simp
  show ?thesis
    using toMobilePhone_detection_failure [OF number detection failure, of "Qiwi ''token''" 0]
    by simp
qed

lemma toCard_detection_failure:
  assumes "get_prop ro ''account'' = Inr cardNumber"
    and "detectCard self net cardNumber report = [Request verb options, Callback err data]"
    and "truthy err \<or>
         (\<exists>status. get_path data [''code'', ''value''] = Inr status \<and> loose_equals_2 status)"
  shows "toCard self net now ro report =
           [Request verb options, Callback (JErr ''Wrong card number!'') JUndefined]"
  using assms(1,3)
  by (auto simp: toCard_def detectCard_then [OF assms(2)] report_def split: sum.splits)

text \<open>
  Claim C5 at a card detection that answers with status code "2": the claim expects the
  callback to receive the error and a \<^verbatim>\<open>null\<close> result. No payment request is issued and
  the error is delivered, but the callback is called with one argument only, so the
  result it receives is \<^verbatim>\<open>undefined\<close>.
\<close>

theorem toCard_rejected_card:
  "toCard (Qiwi ''token'')
     (answering JNull (JObj [(''body'', JObj [(''code'', JObj [(''value'', JStr ''2'')])])])) 0
     (JObj [(''amount'', JNum 10), (''comment'', JStr ''test''), (''account'', JStr ''4256000000000000'')])
     report
   = [Request POST (JObj [(''url'', JStr ''https://qiwi.com/card/detect.action''),
                          (''headers'', headers (Qiwi ''token'')),
                          (''qs'', JObj [(''cardNumber'', JStr ''4256000000000000'')]),
                          (''json'', JBool True)]),
      Callback (JErr ''Wrong card number!'') JUndefined] \<and>
   JUndefined \<noteq> JNull"
  by (simp add: toCard_def detectCard_def request_call_def answering_def on_response_def
        processRequestCallback_def report_def)

section \<open>Request descriptors\<close>

text \<open>
  Claim C6 names two requests built without the authorization header, commission
  lookup and operator detection. Counterexample: the request of
  \<^verbatim>\<open>checkOnlineCommission\<close>, to the online commission endpoint, has no headers either.
\<close>

theorem authorization_exceptions_counterexample:
  "requests (invoke (Qiwi ''token'') (answering JNull (JObj [(''body'', JObj [])])) 0
     (CheckOnlineCommission (JNum 99) (JObj [(''account'', JStr ''79261234567''), (''amount'', JNum 100)]))
     report)
   = [(POST, JObj [
        (''url'', JStr ''https://edge.qiwi.com/sinap/providers/99/onlineCommission''),
        (''body'', JObj [
           (''account'', JStr ''79261234567''),
           (''paymentMethod'', JObj [(''type'', JStr ''Account''), (''accountId'', JStr ''643'')]),
           (''purchaseTotals'', JObj [
              (''total'', JObj [(''amount'', JNum 100), (''currency'', JStr ''643'')])])]),
        (''json'', JBool True)])] \<and>
   \<not> carries_authorization ''token'' (JObj [
        (''url'', JStr ''https://edge.qiwi.com/sinap/providers/99/onlineCommission''),
        (''body'', JObj [
           (''account'', JStr ''79261234567''),
           (''paymentMethod'', JObj [(''type'', JStr ''Account''), (''accountId'', JStr ''643'')]),
           (''purchaseTotals'', JObj [
              (''total'', JObj [(''amount'', JNum 100), (''currency'', JStr ''643'')])])]),
        (''json'', JBool True)])"
  by (simp add: checkOnlineCommission_def requests_simple_request apiUri_Qiwi
        number_to_string_def nat_to_string_def dec_of_nat.simps carries_authorization_def)

text \<open>
  Claim C6, amended: a request built by an operation of a client constructed from a
  token carries the header \<^verbatim>\<open>Authorization: Bearer token\<close> exactly when it is
  not one of three: the request of \<^verbatim>\<open>checkCommission\<close>, the request of
  \<^verbatim>\<open>checkOnlineCommission\<close>, and the operator detection request of \<^verbatim>\<open>toMobilePhone\<close>.
\<close>

theorem authorization_header_on_requests:
  assumes "(verb, options) \<in> set (requests (invoke (Qiwi tok) net now op report))"
  shows "carries_authorization tok options \<longleftrightarrow> \<not> without_authorization op options"
  using authorization_invoke [of tok op net now] assms
  by (auto simp: list_all_iff authorization_as_built_def)

text \<open>Claim C6, witness of the amended statement: the request of \<^verbatim>\<open>getBalance\<close>.\<close>

theorem authorization_header_on_requests_witness:
  "(GET, JObj [(''url'', JStr ''https://edge.qiwi.com/funding-sources/v1/accounts/current''),
               (''headers'', headers (Qiwi ''token'')),
               (''json'', JBool True)])
     \<in> set (requests (invoke (Qiwi ''token'') (answering JNull (JObj [(''body'', JObj [])])) 0
                GetBalance report)) \<and>
   carries_authorization ''token''
     (JObj [(''url'', JStr ''https://edge.qiwi.com/funding-sources/v1/accounts/current''),
            (''headers'', headers (Qiwi ''token'')),
            (''json'', JBool True)])"
proof -
  have issued:
    "(GET, JObj [(''url'', JStr ''https://edge.qiwi.com/funding-sources/v1/accounts/current''),
                 (''headers'', headers (Qiwi ''token'')),
                 (''json'', JBool True)])
       \<in> set (requests (invoke (Qiwi ''token'') (answering JNull (JObj [(''body'', JObj [])])) 0
                  GetBalance report))"
    by (simp add: getBalance_def requests_simple_request apiUri_Qiwi)
  show ?thesis
    using issued authorization_header_on_requests [OF issued] by simp
qed

text \<open>
  Claim C8. \<^verbatim>\<open>toWallet\<close> posts one request (none when \<^verbatim>\<open>requestOptions\<close> is
  \<^verbatim>\<open>null\<close> or \<^verbatim>\<open>undefined\<close>, where reading the amount throws), and its body has
  \<^verbatim>\<open>sum.currency\<close> "643", \<^verbatim>\<open>source\<close> "account_643", \<^verbatim>\<open>paymentMethod.type\<close> "Account"
  and as \<^verbatim>\<open>id\<close> the decimal string of 1000 times the clock value. The clock value is
  taken in the range where JavaScript multiplies exactly.
\<close>

theorem toWallet_request_body:
  assumes "1000 * now < 2 ^ 53"
  shows "length (requests (toWallet self net now ro report)) = (if nullish ro then 0 else 1) \<and>
   (\<forall>(verb, options) \<in> set (requests (toWallet self net now ro report)).
      verb = POST \<and>
      get_path options [''body'', ''sum'', ''currency''] = Inr (JStr ''643'') \<and>
      get_path options [''body'', ''source''] = Inr (JStr ''account_643'') \<and>
      get_path options [''body'', ''paymentMethod'', ''type''] = Inr (JStr ''Account'') \<and>
      get_path options [''body'', ''id''] = Inr (JStr (dec_of_nat (1000 * now))))"
proof (cases "nullish ro")
  case True
  then show ?thesis
    by (simp add: toWallet_def get_prop_nullish)
next
  case False
  then obtain amount comment account
    where "get_prop ro ''amount'' = Inr amount" "get_prop ro ''comment'' = Inr comment"
      "get_prop ro ''account'' = Inr account"
    using get_prop_cases [of ro "''amount''"] get_prop_cases [of ro "''comment''"]
      get_prop_cases [of ro "''account''"]
    by auto
  with False assms show ?thesis
    by (simp add: toWallet_def requests_simple_request nat_to_string_def)
qed

text \<open>Claim C8, witness: a transfer at clock value 1700000000000.\<close>

theorem toWallet_request_body_witness:
  "(1000::nat) * 1700000000000 < 2 ^ 53 \<and>
   requests (toWallet (Qiwi ''token'') (answering JNull (JObj [(''body'', JObj [])])) 1700000000000
     (JObj [(''amount'', JNum 10), (''comment'', JStr ''test''), (''account'', JStr ''+79261234567'')])
     report)
   = [(POST, JObj [
        (''url'', JStr ''https://edge.qiwi.com/sinap/terms/99/payments''),
        (''headers'', headers (Qiwi ''token'')),
        (''body'', JObj [
           (''id'', JStr ''1700000000000000''),
           (''sum'', JObj [(''amount'', JNum 10), (''currency'', JStr ''643'')]),
           (''source'', JStr ''account_643''),
           (''paymentMethod'', JObj [(''type'', JStr ''Account''), (''accountId'', JStr ''643'')]),
           (''comment'', JStr ''test''),
           (''fields'', JObj [(''account'', JStr ''+79261234567'')])]),
        (''json'', JBool True)])]"
proof -
  have range: "(1000::nat) * 1700000000000 < 2 ^ 53"
    by simp
  show ?thesis
    using range toWallet_request_body [OF range, of "Qiwi ''token''"
        "answering JNull (JObj [(''body'', JObj [])])"
        "JObj [(''amount'', JNum 10), (''comment'', JStr ''test''), (''account'', JStr ''+79261234567'')]"]
    by (simp add: toWallet_def requests_simple_request apiUri_Qiwi nat_to_string_def
          dec_of_nat.simps)
qed

end
